theory Spec2Isabelle
  imports Main
begin

section \<open>The Discord bot of ask-starknet: a model of its job bridge and dispatch layer\<close>

text \<open>
  The theory embeds the TypeScript sources of \<^verbatim>\<open>packages/discord-bot/src\<close>:
  the helpers \<^verbatim>\<open>toChunks\<close> and \<^verbatim>\<open>pickAnswer\<close> and the two question handlers
  (\<^verbatim>\<open>commands/ask.ts\<close>, \<^verbatim>\<open>events/messageCreate.ts\<close>), the command loader
  (\<^verbatim>\<open>utils/commandLoader.ts\<close>) and the event loader, the interaction dispatcher
  \<^verbatim>\<open>interactionCreateEvent\<close> (the second part of the file
  \<^verbatim>\<open>scripts/deploy-commands.ts\<close>), and the start-up and shutdown code of
  \<^verbatim>\<open>index.ts\<close>.

  A JavaScript string is a list of code units; the element type plays no role in the
  chunker, which is therefore polymorphic. Elsewhere strings are \<^typ>\<open>string\<close>.
\<close>

subsection \<open>Strings\<close>

text \<open>
  \<^verbatim>\<open>s.slice(start, end)\<close> for integer indices \<open>0 \<le> start\<close>, \<open>0 \<le> end\<close>:
  the code units from \<open>start\<close> up to (not including) \<open>end\<close>, both clamped to the length;
  empty when \<open>end \<le> start\<close>. \<^verbatim>\<open>s.slice(start)\<close> runs to the end of the string.
\<close>

definition slice :: "'a list \<Rightarrow> nat \<Rightarrow> nat \<Rightarrow> 'a list" where
  "slice s start fin = take (fin - start) (drop start s)"

definition slice_from :: "'a list \<Rightarrow> nat \<Rightarrow> 'a list" where
  "slice_from s start = drop start s"

subsection \<open>The chunker\<close>

text \<open>
  \<^verbatim>\<open>
  function toChunks(text: string, size = 3800): string[] {
    const chunks: string[] = [];
    for (let i = 0; i < text.length; i += size) chunks.push(text.slice(i, i + size));
    return chunks;
  }
  \<close>
  The loop does not end when \<open>size\<close> is \<open>0\<close> and the text is not empty, so the model is a
  partial function: \<open>None\<close> stands for a call that never returns. The default size is
  \<open>3800\<close> in \<^verbatim>\<open>ask.ts\<close> and \<open>1900\<close> in \<^verbatim>\<open>messageCreate.ts\<close>; the bodies are the same.
\<close>

partial_function (option) toChunks_loop ::
  "'a list \<Rightarrow> nat \<Rightarrow> nat \<Rightarrow> 'a list list \<Rightarrow> 'a list list option" where
  "toChunks_loop text sz i chunks =
     (if i < length text
      then toChunks_loop text sz (i + sz) (chunks @ [slice text i (i + sz)])
      else Some chunks)"

declare toChunks_loop.simps [code]

definition toChunks :: "'a list \<Rightarrow> nat \<Rightarrow> 'a list list option" where
  "toChunks text sz = toChunks_loop text sz 0 []"

definition ask_chunk_size :: nat where
  "ask_chunk_size = 3800"

definition mention_chunk_size :: nat where
  "mention_chunk_size = 1900"

subsection \<open>JavaScript values and answer extraction\<close>

text \<open>
  A job result is an untyped value (\<^verbatim>\<open>result: any\<close>). Objects are association lists
  of their own data properties; \<^verbatim>\<open>v?.k\<close> is \<^verbatim>\<open>undefined\<close> when \<open>v\<close> is
  \<^verbatim>\<open>null\<close> or \<^verbatim>\<open>undefined\<close>, and for a primitive (none of the four keys read
  below is a property of a string, number or boolean).
\<close>

datatype jsval =
    JUndefined
  | JNull
  | JBool bool
  | JNum int
  | JStr string
  | JObj "(string \<times> jsval) list"

fun is_nullish :: "jsval \<Rightarrow> bool" where
  "is_nullish JUndefined = True"
| "is_nullish JNull = True"
| "is_nullish _ = False"

text \<open>\<^verbatim>\<open>a ?? b\<close>: \<open>b\<close> when \<open>a\<close> is \<^verbatim>\<open>null\<close> or \<^verbatim>\<open>undefined\<close>, else \<open>a\<close>.\<close>

definition nullish_coalesce :: "jsval \<Rightarrow> jsval \<Rightarrow> jsval" where
  "nullish_coalesce a b = (if is_nullish a then b else a)"

fun opt_member :: "jsval \<Rightarrow> string \<Rightarrow> jsval" where
  "opt_member (JObj fields) k = (case map_of fields k of Some v \<Rightarrow> v | None \<Rightarrow> JUndefined)"
| "opt_member _ k = JUndefined"

text \<open>
  \<^verbatim>\<open>
  function pickAnswer(result: any): string {
    return (
      result?.answer ?? result?.output ?? result?.message ?? result?.data ??
      'No answer received.'
    );
  }
  \<close>
  \<^verbatim>\<open>??\<close> associates to the left.
\<close>

definition pickAnswer :: "jsval \<Rightarrow> jsval" where
  "pickAnswer result =
     nullish_coalesce
       (nullish_coalesce
         (nullish_coalesce
           (nullish_coalesce (opt_member result ''answer'') (opt_member result ''output''))
           (opt_member result ''message''))
         (opt_member result ''data''))
       (JStr ''No answer received.'')"

text \<open>
  The specification's wording of the same function: probe the fields in a fixed priority
  order, take the first one that is populated, fall back to a fixed string.
\<close>

definition answer_priority :: "string list" where
  "answer_priority = [''answer'', ''output'', ''message'', ''data'']"

definition populated :: "jsval \<Rightarrow> bool" where
  "populated v = (\<not> is_nullish v)"

definition first_populated_field :: "jsval \<Rightarrow> jsval" where
  "first_populated_field result =
     (case find populated (map (opt_member result) answer_priority) of
        Some v \<Rightarrow> v
      | None \<Rightarrow> JStr ''No answer received.'')"

subsection \<open>Effects: external calls, the reply latch, timers, the log\<close>

text \<open>
  A JavaScript exception is an error object with a name and a message.
\<close>

datatype fault = Fault (fault_name: string) (fault_message: string)

text \<open>
  The body of an outgoing message: plain \<^verbatim>\<open>content\<close>, or embeds built with
  \<^verbatim>\<open>EmbedBuilder\<close> (title, description, footer). The two footers of the sources are
  \<^verbatim>\<open>`Latency ${n}ms`\<close> and \<^verbatim>\<open>`Asked by @${name}`\<close>.
\<close>

datatype footer = Latency int | AskedBy string

record embed =
  title :: string
  description :: string
  footer :: footer

datatype body = Content string | Embeds "embed list"

datatype platform = DISCORD

record job_request =
  platform :: platform
  userId :: string
  userName :: string
  message :: string
  messageId :: string
  timestamp :: int

text \<open>
  The calls the handlers make on objects of discord.js and of the queue manager of the
  shared package, with their arguments: \<^verbatim>\<open>interaction.reply\<close> (with its
  \<^verbatim>\<open>ephemeral\<close> flag), \<^verbatim>\<open>deferReply\<close>, \<^verbatim>\<open>editReply\<close>, \<^verbatim>\<open>followUp\<close>,
  \<^verbatim>\<open>message.reply\<close>, \<^verbatim>\<open>channel.send\<close>, \<^verbatim>\<open>channel.sendTyping\<close>,
  \<^verbatim>\<open>queueManager.addJob\<close> and \<^verbatim>\<open>queueManager.waitForJobCompletion\<close>.
\<close>

datatype call =
    Reply body bool
  | DeferReply
  | EditReply body
  | FollowUp body bool
  | MessageReply body
  | ChannelSend body
  | SendTyping
  | AddJob job_request
  | WaitForJobCompletion jsval int

datatype outcome = Resolves jsval | Rejects fault

text \<open>
  The environment is a parameter. \<open>settle\<close> tells how an awaited call ends, given all
  the calls made so far (the awaited one last): any call may be rejected, by the library
  or by the network. \<open>date_now\<close> is the clock read by \<^verbatim>\<open>Date.now()\<close>, and
  \<open>ASK_TIMEOUT_MS\<close> the environment variable of that name (an integer when set).
\<close>

record env =
  settle :: "call list \<Rightarrow> outcome"
  date_now :: "call list \<Rightarrow> int"
  ASK_TIMEOUT_MS :: "int option"

datatype level = Info | Warn | Error

datatype log_entry = Log level string "string list"

text \<open>
  The state a handler works on: the calls made so far, the log, the reply latch of the
  interaction (\<^verbatim>\<open>interaction.deferred\<close>, \<^verbatim>\<open>interaction.replied\<close>), the interval
  timers that are running and the next timer id, and the names of the commands whose
  \<^verbatim>\<open>execute\<close> the dispatcher has called.
\<close>

record world =
  calls :: "call list"
  logs :: "log_entry list"
  deferred :: bool
  replied :: bool
  timers :: "nat list"
  timer_seq :: nat
  invoked :: "string list"

text \<open>
  An asynchronous function is a state transformer that returns a value or throws;
  \<^verbatim>\<open>await\<close> is sequential composition.
\<close>

type_synonym 'a io = "world \<Rightarrow> (fault + 'a) \<times> world"

definition ret :: "'a \<Rightarrow> 'a io" where
  "ret v w = (Inr v, w)"

definition throw :: "fault \<Rightarrow> 'a io" where
  "throw e w = (Inl e, w)"

definition andThen :: "'a io \<Rightarrow> ('a \<Rightarrow> 'b io) \<Rightarrow> 'b io" where
  "andThen m f w = (case m w of (Inl e, w') \<Rightarrow> (Inl e, w') | (Inr v, w') \<Rightarrow> f v w')"

definition try_catch :: "'a io \<Rightarrow> (fault \<Rightarrow> 'a io) \<Rightarrow> 'a io" where
  "try_catch m h w = (case m w of (Inl e, w') \<Rightarrow> h e w' | (Inr v, w') \<Rightarrow> (Inr v, w'))"

definition try_finally :: "'a io \<Rightarrow> unit io \<Rightarrow> 'a io" where
  "try_finally m fin w =
     (case m w of (r, w') \<Rightarrow>
        (case fin w' of (Inl e, w'') \<Rightarrow> (Inl e, w'') | (Inr u, w'') \<Rightarrow> (r, w'')))"

fun forEach :: "'a list \<Rightarrow> ('a \<Rightarrow> unit io) \<Rightarrow> unit io" where
  "forEach [] f w = (Inr (), w)"
| "forEach (x # xs) f w =
     (case f x w of (Inl e, w') \<Rightarrow> (Inl e, w') | (Inr u, w') \<Rightarrow> forEach xs f w')"

definition await_call :: "env \<Rightarrow> call \<Rightarrow> jsval io" where
  "await_call env c w =
     (let w' = w\<lparr>calls := calls w @ [c]\<rparr>
      in case settle env (calls w') of
           Resolves v \<Rightarrow> (Inr v, w')
         | Rejects e \<Rightarrow> (Inl e, w'))"

definition now :: "env \<Rightarrow> int io" where
  "now env w = (Inr (date_now env (calls w)), w)"

definition write_log :: "level \<Rightarrow> string \<Rightarrow> string list \<Rightarrow> unit io" where
  "write_log lvl text ctx w = (Inr (), w\<lparr>logs := logs w @ [Log lvl text ctx]\<rparr>)"

text \<open>
  The reply methods of an interaction. A call that resolves sets the latch as discord.js
  does: \<^verbatim>\<open>deferReply\<close> sets \<^verbatim>\<open>deferred\<close>; \<^verbatim>\<open>reply\<close>, \<^verbatim>\<open>editReply\<close> and
  \<^verbatim>\<open>followUp\<close> set \<^verbatim>\<open>replied\<close>. A rejected call leaves it as it is.
\<close>

definition reply :: "env \<Rightarrow> body \<Rightarrow> bool \<Rightarrow> unit io" where
  "reply env b ephemeral =
     andThen (await_call env (Reply b ephemeral)) (\<lambda>v w. (Inr (), w\<lparr>replied := True\<rparr>))"

definition deferReply :: "env \<Rightarrow> unit io" where
  "deferReply env =
     andThen (await_call env DeferReply) (\<lambda>v w. (Inr (), w\<lparr>deferred := True\<rparr>))"

definition editReply :: "env \<Rightarrow> body \<Rightarrow> unit io" where
  "editReply env b =
     andThen (await_call env (EditReply b)) (\<lambda>v w. (Inr (), w\<lparr>replied := True\<rparr>))"

definition followUp :: "env \<Rightarrow> body \<Rightarrow> bool \<Rightarrow> unit io" where
  "followUp env b ephemeral =
     andThen (await_call env (FollowUp b ephemeral)) (\<lambda>v w. (Inr (), w\<lparr>replied := True\<rparr>))"

definition message_reply :: "env \<Rightarrow> body \<Rightarrow> unit io" where
  "message_reply env b = andThen (await_call env (MessageReply b)) (\<lambda>v. ret ())"

definition channel_send :: "env \<Rightarrow> body \<Rightarrow> unit io" where
  "channel_send env b = andThen (await_call env (ChannelSend b)) (\<lambda>v. ret ())"

definition sendTyping :: "env \<Rightarrow> unit io" where
  "sendTyping env = andThen (await_call env SendTyping) (\<lambda>v. ret ())"

text \<open>
  \<^verbatim>\<open>setInterval\<close> starts a recurring timer and returns its id, \<^verbatim>\<open>clearInterval\<close>
  stops the timer of that id. Neither throws.
\<close>

definition setInterval :: "nat io" where
  "setInterval w =
     (Inr (timer_seq w), w\<lparr>timers := timers w @ [timer_seq w], timer_seq := Suc (timer_seq w)\<rparr>)"

definition clearInterval :: "nat \<Rightarrow> unit io" where
  "clearInterval t w = (Inr (), w\<lparr>timers := removeAll t (timers w)\<rparr>)"

text \<open>
  \<^verbatim>\<open>s.startsWith(p)\<close>, \<^verbatim>\<open>s.endsWith(p)\<close> and \<^verbatim>\<open>s.includes(p)\<close>.
\<close>

fun startsWith :: "'a list \<Rightarrow> 'a list \<Rightarrow> bool" where
  "startsWith s [] = True"
| "startsWith [] (p # ps) = False"
| "startsWith (c # cs) (p # ps) = (c = p \<and> startsWith cs ps)"

definition endsWith :: "'a list \<Rightarrow> 'a list \<Rightarrow> bool" where
  "endsWith s p = startsWith (rev s) (rev p)"

fun str_includes :: "'a list \<Rightarrow> 'a list \<Rightarrow> bool" where
  "str_includes [] p = startsWith [] p"
| "str_includes (c # cs) p = (startsWith (c # cs) p \<or> str_includes cs p)"

text \<open>
  \<^verbatim>\<open>job.id\<close>: reading a property of \<^verbatim>\<open>null\<close> or \<^verbatim>\<open>undefined\<close> throws a
  TypeError.
\<close>

definition get_member :: "jsval \<Rightarrow> string \<Rightarrow> jsval io" where
  "get_member v k =
     (if is_nullish v then throw (Fault ''TypeError'' ''Cannot read properties of undefined'')
      else ret (opt_member v k))"

text \<open>
  \<^verbatim>\<open>pickAnswer\<close> is declared to return a string, and the handlers use its result as
  one (\<^verbatim>\<open>answer.length\<close>, \<^verbatim>\<open>answer.slice\<close>, \<^verbatim>\<open>setDescription(answer)\<close>). A result
  that is not a string makes the construction of the embed throw (a TypeError for a
  missing \<^verbatim>\<open>slice\<close>, or the builder's validation); the model throws a TypeError there.
  Every string passes, the empty one too: that one is refused by \<open>setDescription\<close>
  below.
\<close>

definition as_string :: "jsval \<Rightarrow> string io" where
  "as_string v =
     (case v of JStr s \<Rightarrow> ret s
      | _ \<Rightarrow> throw (Fault ''TypeError'' ''answer is not a string''))"

text \<open>
  \<^verbatim>\<open>new EmbedBuilder().setTitle('Answer').setDescription(d)\<close>: the builder of
  discord.js validates the description when it is set, and throws unless it has
  between 1 and 4096 characters. In particular the empty string is refused. (Of the
  error only this matters below: its name is not \<^verbatim>\<open>TimeoutError\<close> and its message does
  not contain \<^verbatim>\<open>timed out\<close>.)
\<close>

definition setDescription :: "string \<Rightarrow> string io" where
  "setDescription d =
     (if 1 \<le> length d \<and> length d \<le> 4096 then ret d
      else throw (Fault ''ValidationError'' ''Invalid string length''))"

text \<open>
  \<^verbatim>\<open>for (const chunk of toChunks(remaining)) await send(chunk)\<close>. The call of
  \<^verbatim>\<open>toChunks\<close> returns, since the default sizes are positive; the other branch is never
  taken (lemma \<open>toChunks_default_returns\<close> below).
\<close>

definition for_chunks :: "string list option \<Rightarrow> (string \<Rightarrow> unit io) \<Rightarrow> unit io" where
  "for_chunks cs f =
     (case cs of Some chunks \<Rightarrow> forEach chunks f
      | None \<Rightarrow> throw (Fault ''RangeError'' ''toChunks does not return''))"

definition timeoutMs :: "env \<Rightarrow> int" where
  "timeoutMs env = (case ASK_TIMEOUT_MS env of Some t \<Rightarrow> t | None \<Rightarrow> 60000)"

subsection \<open>The ask command\<close>

text \<open>
  What the handler reads from a \<^verbatim>\<open>ChatInputCommandInteraction\<close>. \<open>options_question\<close>
  is the value of the option \<^verbatim>\<open>question\<close> (\<^verbatim>\<open>options.get('question', true)\<close> throws
  when it is absent); \<open>client_queueManager\<close> tells whether \<^verbatim>\<open>client.queueManager\<close> is
  set.
\<close>

record interaction =
  isChatInputCommand :: bool
  commandName :: string
  options_question :: "string option"
  interaction_id :: string
  user_id :: string
  user_username :: string
  createdTimestamp :: int
  client_queueManager :: bool

definition ask_error_message :: "fault \<Rightarrow> string" where
  "ask_error_message err =
     (if str_includes (fault_message err) ''timed out'' \<or> fault_name err = ''TimeoutError''
      then ''Request timed out. Try again.''
      else ''Error while processing the question.'')"

text \<open>The body of the \<^verbatim>\<open>try\<close> block of \<^verbatim>\<open>askCommand.execute\<close> (ask.ts, lines 86-121).\<close>

definition ask_try :: "env \<Rightarrow> interaction \<Rightarrow> unit io" where
  "ask_try env ix =
     (if \<not> client_queueManager ix then throw (Fault ''Error'' ''Queue manager unavailable'')
      else case options_question ix of
        None \<Rightarrow> throw (Fault ''TypeError'' ''Required option question not found'')
      | Some question \<Rightarrow>
          andThen (deferReply env) (\<lambda>u.
          andThen (now env) (\<lambda>t.
          andThen (await_call env (AddJob \<lparr>platform = DISCORD, userId = user_id ix,
                     userName = user_username ix, message = question,
                     messageId = interaction_id ix, timestamp = t\<rparr>)) (\<lambda>job.
          andThen (get_member job ''id'') (\<lambda>job_id.
          andThen (await_call env (WaitForJobCompletion job_id (timeoutMs env))) (\<lambda>result.
          andThen (as_string (pickAnswer result)) (\<lambda>answer.
          andThen (setDescription
                     (if length answer \<le> 4096 then answer else slice answer 0 4096)) (\<lambda>d.
          andThen (now env) (\<lambda>t'.
          (let e = \<lparr>title = ''Answer'', description = d,
                     footer = Latency (t' - createdTimestamp ix)\<rparr>
           in if length answer \<le> 4096 then editReply env (Embeds [e])
              else andThen (editReply env (Embeds [e])) (\<lambda>u.
                   for_chunks (toChunks (slice_from answer 4096) ask_chunk_size)
                     (\<lambda>chunk. followUp env (Content chunk) False))))))))))))"

text \<open>The \<^verbatim>\<open>catch\<close> block (ask.ts, lines 122-133).\<close>

definition ask_catch :: "env \<Rightarrow> fault \<Rightarrow> unit io" where
  "ask_catch env err =
     andThen (write_log Error ''Ask command failed'' []) (\<lambda>u w.
       if deferred w \<or> replied w then editReply env (Content (ask_error_message err)) w
       else reply env (Content (ask_error_message err)) True w)"

definition askCommand_execute :: "env \<Rightarrow> interaction \<Rightarrow> unit io" where
  "askCommand_execute env ix = try_catch (ask_try env ix) (ask_catch env)"

subsection \<open>Commands and the dispatcher\<close>

text \<open>
  A command module's export, as far as the loader and the dispatcher look at it:
  \<^verbatim>\<open>data\<close> (absent, or with a \<^verbatim>\<open>name\<close> and possibly a \<^verbatim>\<open>toJSON\<close> method, whose
  call throws or returns an object with or without a name) and \<^verbatim>\<open>execute\<close> (present
  when it is a function).
\<close>

record cmd_data =
  data_name :: "string option"
  data_toJSON :: "(fault + string option) option"

record command =
  data :: "cmd_data option"
  execute :: "(interaction \<Rightarrow> unit io) option"

text \<open>\<^verbatim>\<open>command.execute(interaction)\<close>: calling what is not a function throws.\<close>

definition call_execute :: "command \<Rightarrow> interaction \<Rightarrow> unit io" where
  "call_execute c ix =
     (case execute c of
        None \<Rightarrow> throw (Fault ''TypeError'' ''command.execute is not a function'')
      | Some h \<Rightarrow> (\<lambda>w. h ix (w\<lparr>invoked := invoked w @ [commandName ix]\<rparr>)))"

text \<open>
  \<^verbatim>\<open>interactionCreateEvent.execute\<close> (scripts/deploy-commands.ts, lines 185-222). The
  registry \<^verbatim>\<open>client.commands\<close> is a parameter (it may be undefined:
  \<^verbatim>\<open>commands?.get(name)\<close>). \<open>call_execute\<close> also records the name of the command
  in \<open>invoked\<close>.
\<close>

definition interactionCreate_execute ::
  "env \<Rightarrow> (string \<rightharpoonup> command) option \<Rightarrow> interaction \<Rightarrow> unit io" where
  "interactionCreate_execute env commands ix =
     (if \<not> isChatInputCommand ix then ret ()
      else case (case commands of None \<Rightarrow> None | Some m \<Rightarrow> m (commandName ix)) of
        None \<Rightarrow>
          andThen (write_log Warn ''Command not found'' [commandName ix]) (\<lambda>u w.
            if \<not> replied w \<and> \<not> deferred w
            then reply env (Content ''Unknown command.'') True w
            else ret () w)
      | Some c \<Rightarrow>
          try_catch
            (andThen (call_execute c ix) (\<lambda>u.
               write_log Info ''Command executed'' [commandName ix, user_id ix]))
            (\<lambda>error.
               andThen (write_log Error ''Command error'' [commandName ix]) (\<lambda>u w.
                 if deferred w \<or> replied w
                 then followUp env (Content ''There was an error executing this command.'') True w
                 else reply env (Content ''There was an error executing this command.'') True w)))"

subsection \<open>The mention handler\<close>

text \<open>
  What \<^verbatim>\<open>messageCreateEvent.execute\<close> reads from a \<^verbatim>\<open>Message\<close>:
  \<open>client_user_id\<close> is \<^verbatim>\<open>client.user.id\<close> (absent when \<^verbatim>\<open>client.user\<close> is
  null), \<open>mentions_users\<close> the ids of the mentioned users, \<open>channel_send_is_function\<close>
  the test \<^verbatim>\<open>typeof channel.send === 'function'\<close>.
\<close>

record message_in =
  author_bot :: bool
  author_id :: string
  author_username :: string
  content :: string
  message_id :: string
  mentions_users :: "string list"
  client_user_id :: "string option"
  client_has_queueManager :: bool
  channel_send_is_function :: bool

text \<open>
  \<^verbatim>\<open>content.replace(new RegExp(`<@!?${me.id}>`, 'g'), '')\<close>: every occurrence of
  \<^verbatim>\<open><@ID>\<close> or \<^verbatim>\<open><@!ID>\<close> is removed, scanning from the left (the id is a string of
  digits, so it stands for itself in the pattern). The counter is the number of
  characters of a match still to be skipped.
\<close>

fun strip_mentions_from :: "string \<Rightarrow> nat \<Rightarrow> string \<Rightarrow> string" where
  "strip_mentions_from ident k [] = []"
| "strip_mentions_from ident (Suc k) (c # cs) = strip_mentions_from ident k cs"
| "strip_mentions_from ident 0 (c # cs) =
     (if startsWith (c # cs) (''<@!'' @ ident @ ''>'')
      then strip_mentions_from ident (length ident + 3) cs
      else if startsWith (c # cs) (''<@'' @ ident @ ''>'')
      then strip_mentions_from ident (length ident + 2) cs
      else c # strip_mentions_from ident 0 cs)"

definition strip_mentions :: "string \<Rightarrow> string \<Rightarrow> string" where
  "strip_mentions ident s = strip_mentions_from ident 0 s"

text \<open>\<^verbatim>\<open>s.trim()\<close>, for the white space of the 8-bit characters.\<close>

definition is_space :: "char \<Rightarrow> bool" where
  "is_space c = (c \<in> set [CHR 0x09, CHR 0x0A, CHR 0x0B, CHR 0x0C, CHR 0x0D, CHR 0x20, CHR 0xA0])"

definition trim :: "string \<Rightarrow> string" where
  "trim s = rev (dropWhile is_space (rev (dropWhile is_space s)))"

text \<open>
  The inner \<^verbatim>\<open>try\<close> block (messageCreate.ts, lines 119-145), which runs while the
  typing timer is active.
\<close>

definition mention_answer :: "env \<Rightarrow> message_in \<Rightarrow> string \<Rightarrow> unit io" where
  "mention_answer env msg question =
     andThen (now env) (\<lambda>t.
     andThen (await_call env (AddJob \<lparr>platform = DISCORD, userId = author_id msg,
                userName = author_username msg, message = question,
                messageId = message_id msg, timestamp = t\<rparr>)) (\<lambda>job.
     andThen (get_member job ''id'') (\<lambda>job_id.
     andThen (await_call env (WaitForJobCompletion job_id (timeoutMs env))) (\<lambda>result.
     andThen (as_string (pickAnswer result)) (\<lambda>answer.
     andThen (setDescription (slice answer 0 4096)) (\<lambda>d.
     andThen (message_reply env (Embeds [\<lparr>title = ''Answer'', description = d,
                footer = AskedBy (author_username msg)\<rparr>])) (\<lambda>u.
       if length answer > 4096
       then for_chunks (toChunks (slice_from answer 4096) mention_chunk_size)
              (\<lambda>chunk. channel_send env (Content chunk))
       else ret ())))))))"

text \<open>
  The outer \<^verbatim>\<open>try\<close> block (lines 81-148). The callback of the timer (a
  \<^verbatim>\<open>sendTyping\<close> every 8 seconds, its errors swallowed) runs between the steps of the
  handler; its calls are not part of the handler's own trace.
\<close>

definition mention_try :: "env \<Rightarrow> message_in \<Rightarrow> unit io" where
  "mention_try env msg =
     (if author_bot msg then ret ()
      else case client_user_id msg of
        None \<Rightarrow> ret ()
      | Some me \<Rightarrow>
          if me \<notin> set (mentions_users msg) then ret ()
          else (let question = trim (strip_mentions me (content msg))
            in if question = []
               then message_reply env (Content ''Provide a question after mentioning me.'')
               else if \<not> client_has_queueManager msg
               then message_reply env (Content ''Queue is unavailable. Use /ask instead.'')
               else if \<not> channel_send_is_function msg
               then message_reply env (Content ''I can only respond in text channels.'')
               else andThen (sendTyping env) (\<lambda>u.
                    andThen setInterval (\<lambda>typer.
                    try_finally (mention_answer env msg question) (clearInterval typer)))))"

definition messageCreate_execute :: "env \<Rightarrow> message_in \<Rightarrow> unit io" where
  "messageCreate_execute env msg =
     try_catch (mention_try env msg)
       (\<lambda>error.
          andThen (write_log Error ''messageCreate handler failed'' []) (\<lambda>u.
          try_catch (message_reply env (Content ''Error processing your question. Try /ask.''))
            (\<lambda>e. ret ())))"

subsection \<open>The process: client, loaders, start-up and shutdown\<close>

text \<open>
  The calls of the start-up and shutdown code on the outside, in the order they are
  made: \<^verbatim>\<open>console.error\<close>, \<^verbatim>\<open>process.exit\<close>, \<^verbatim>\<open>initLogger\<close>, the two
  constructors, \<^verbatim>\<open>queueManager.startWorker\<close>, \<^verbatim>\<open>fs.readdir\<close> of a directory,
  \<^verbatim>\<open>import\<close> of a file, the registration of the process-level handlers,
  \<^verbatim>\<open>client.login\<close>, \<^verbatim>\<open>queueManager.stopWorker\<close> and \<^verbatim>\<open>client.destroy\<close>.
\<close>

datatype step =
    ConsoleError string
  | Exit int
  | InitLogger
  | NewClient
  | NewQueueManager
  | StartWorker
  | ReadDir string
  | Import string
  | RegisterProcessHandlers
  | Login
  | StopWorker
  | DestroyClient

record queue_manager =
  has_stopWorker :: bool

text \<open>The \<^verbatim>\<open>await\<close> on which a running \<^verbatim>\<open>shutdown\<close> is suspended, with its exit code.\<close>

datatype pending = NoAwait | AwaitStopWorker int | AwaitDestroy int

datatype signal = SIGINT | SIGTERM

text \<open>
  The client with the services attached to it (\<^verbatim>\<open>client.commands\<close>,
  \<^verbatim>\<open>client.queueManager\<close>, \<^verbatim>\<open>client.isShuttingDown\<close>, the listeners registered with
  \<^verbatim>\<open>client.on\<close> and \<^verbatim>\<open>client.once\<close>), the log, and the state of the process:
  the signals that have a listener registered with \<^verbatim>\<open>process.once\<close> (such a listener
  is removed when its signal is delivered), whether \<^verbatim>\<open>uncaughtException\<close> has a
  listener (registered with \<^verbatim>\<open>process.on\<close>, it stays), the steps made, the pending
  await of \<^verbatim>\<open>shutdown\<close>, the code of \<^verbatim>\<open>process.exit\<close>, and the signal that
  terminated the process, if one did.
\<close>

record process =
  registry :: "(string \<rightharpoonup> command) option"
  queueManager :: "queue_manager option"
  isShuttingDown :: bool
  listeners :: "(string \<times> bool) list"
  proc_logs :: "log_entry list"
  once_listeners :: "signal list"
  uncaught_listener :: bool
  steps :: "step list"
  pending :: pending
  exited :: "int option"
  killed_by :: "signal option"

definition plog :: "level \<Rightarrow> string \<Rightarrow> string list \<Rightarrow> process \<Rightarrow> process" where
  "plog lvl text ctx p = p\<lparr>proc_logs := proc_logs p @ [Log lvl text ctx]\<rparr>"

definition do_step :: "step \<Rightarrow> process \<Rightarrow> process" where
  "do_step s p = p\<lparr>steps := steps p @ [s]\<rparr>"

text \<open>
  A module is the list of its exports in the order of \<^verbatim>\<open>Object.keys\<close>; an export is
  absent (\<open>None\<close>) when its value is falsy.
\<close>

type_synonym 'a module = "(string \<times> 'a option) list"

definition export :: "'a module \<Rightarrow> string \<Rightarrow> 'a option" where
  "export md k = (case map_of md k of Some v \<Rightarrow> v | None \<Rightarrow> None)"

text \<open>Case folding of the flag \<^verbatim>\<open>i\<close>, for the letters A to Z.\<close>

definition to_lower :: "char \<Rightarrow> char" where
  "to_lower c =
     (case map_of (zip ''ABCDEFGHIJKLMNOPQRSTUVWXYZ'' ''abcdefghijklmnopqrstuvwxyz'') c of
        Some l \<Rightarrow> l
      | None \<Rightarrow> c)"

text \<open>
  \<^verbatim>\<open>mod.default || mod.<alt> || mod[Object.keys(mod).find((k) => /<Suffix>$/i.test(k))!]\<close>,
  with \<open>alt\<close> and the lower-case suffix \<^verbatim>\<open>command\<close> for commands and \<^verbatim>\<open>event\<close> for
  events. When no key matches, the property read is the one named \<^verbatim>\<open>undefined\<close>.
\<close>

definition pick_export :: "string \<Rightarrow> 'a module \<Rightarrow> 'a option" where
  "pick_export alt md =
     (case export md ''default'' of
        Some c \<Rightarrow> Some c
      | None \<Rightarrow>
         (case export md alt of
            Some c \<Rightarrow> Some c
          | None \<Rightarrow>
             export md
               (case find (\<lambda>k. endsWith (map to_lower k) alt) (map fst md) of
                  Some k \<Rightarrow> k
                | None \<Rightarrow> ''undefined'')))"

text \<open>
  The file filter of both loaders:
  \<^verbatim>\<open>/\.(ts|js|mjs|cjs)$/.test(f) && !f.endsWith('.d.ts') && !f.endsWith('.map') && !f.startsWith('_')\<close>.
\<close>

definition is_module_file :: "string \<Rightarrow> bool" where
  "is_module_file f =
     ((endsWith f ''.ts'' \<or> endsWith f ''.js'' \<or> endsWith f ''.mjs'' \<or> endsWith f ''.cjs'')
      \<and> \<not> endsWith f ''.d.ts'' \<and> \<not> endsWith f ''.map'' \<and> \<not> startsWith f ''_'')"

text \<open>
  \<^verbatim>\<open>candidate.data.name ?? candidate.data?.toJSON?.().name\<close>: the name of the data,
  else the name of what \<^verbatim>\<open>toJSON\<close> returns when there is such a method; the call may
  throw.
\<close>

definition command_name :: "cmd_data \<Rightarrow> fault + string option" where
  "command_name d =
     (case data_name d of
        Some n \<Rightarrow> Inr (Some n)
      | None \<Rightarrow> (case data_toJSON d of None \<Rightarrow> Inr None | Some r \<Rightarrow> r))"

record 'a loader_fs =
  readdir :: "fault + string list"
  import_module :: "string \<Rightarrow> fault + 'a module"

text \<open>
  The body of the loop of \<^verbatim>\<open>loadCommands\<close> for one file (commandLoader.ts, lines
  78-98). Whatever is thrown inside is caught and logged.
\<close>

definition load_command_file ::
  "(string \<Rightarrow> fault + command module) \<Rightarrow> process \<Rightarrow> string \<Rightarrow> process" where
  "load_command_file imp p0 file =
     (let p = do_step (Import file) p0
      in case imp file of
        Inl err \<Rightarrow> plog Error ''Failed to load command'' [file] p
      | Inr md \<Rightarrow>
         (case pick_export ''command'' md of
            None \<Rightarrow> plog Warn ''Invalid command module'' [file] p
          | Some candidate \<Rightarrow>
             (case (data candidate, execute candidate) of
                (Some d, Some h) \<Rightarrow>
                  (case command_name d of
                     Inl err \<Rightarrow> plog Error ''Failed to load command'' [file] p
                   | Inr None \<Rightarrow> plog Warn ''Command missing name'' [file] p
                   | Inr (Some name) \<Rightarrow>
                       if name = [] then plog Warn ''Command missing name'' [file] p
                       else (case registry p of
                          None \<Rightarrow> plog Error ''Failed to load command'' [file] p
                        | Some m \<Rightarrow>
                            plog Info ''Loaded command'' [name, file]
                              (p\<lparr>registry := Some (m(name \<mapsto> candidate))\<rparr>)))
              | _ \<Rightarrow> plog Warn ''Invalid command module'' [file] p)))"

definition loadCommands :: "command loader_fs \<Rightarrow> process \<Rightarrow> process" where
  "loadCommands fs p0 =
     (let p1 = (case registry p0 of None \<Rightarrow> p0\<lparr>registry := Some Map.empty\<rparr> | Some m \<Rightarrow> p0);
          p2 = do_step (ReadDir ''commands'') p1
      in case readdir fs of
        Inl err \<Rightarrow> plog Error ''Failed to read commands directory'' [] p2
      | Inr files \<Rightarrow>
          foldl (load_command_file (import_module fs)) p2 (filter is_module_file files))"

text \<open>
  An event module's export: its \<^verbatim>\<open>name\<close>, its \<^verbatim>\<open>once\<close> flag, and whether
  \<^verbatim>\<open>execute\<close> is a function. \<^verbatim>\<open>loadEvents\<close> registers a listener per valid module.
\<close>

record event_export =
  event_name :: "string option"
  event_once :: bool
  event_execute_is_function :: bool

definition load_event_file ::
  "(string \<Rightarrow> fault + event_export module) \<Rightarrow> process \<Rightarrow> string \<Rightarrow> process" where
  "load_event_file imp p0 file =
     (let p = do_step (Import file) p0
      in case imp file of
        Inl err \<Rightarrow> plog Error ''Failed to load event'' [file] p
      | Inr md \<Rightarrow>
         (case pick_export ''event'' md of
            None \<Rightarrow> plog Warn ''Invalid event module'' [file] p
          | Some ev \<Rightarrow>
             (case event_name ev of
                None \<Rightarrow> plog Warn ''Invalid event module'' [file] p
              | Some name \<Rightarrow>
                  if \<not> event_execute_is_function ev \<or> name = []
                  then plog Warn ''Invalid event module'' [file] p
                  else plog Info ''Loaded event'' [name, file]
                         (p\<lparr>listeners := listeners p @ [(name, event_once ev)]\<rparr>))))"

definition loadEvents :: "event_export loader_fs \<Rightarrow> process \<Rightarrow> process" where
  "loadEvents fs p0 =
     (let p = do_step (ReadDir ''events'') p0
      in case readdir fs of
        Inl err \<Rightarrow> plog Error ''Failed to read events directory'' [] p
      | Inr files \<Rightarrow>
          foldl (load_event_file (import_module fs)) p (filter is_module_file files))"

text \<open>
  What \<^verbatim>\<open>main\<close> finds outside: the token, whether building the queue configuration
  and the queue manager throws, whether \<^verbatim>\<open>startWorker\<close> and \<^verbatim>\<open>login\<close> are rejected,
  and the two directories.
\<close>

record startup =
  DISCORD_TOKEN :: "string option"
  new_queue_manager :: "fault + queue_manager"
  startWorker_result :: "fault option"
  commands_dir :: "command loader_fs"
  events_dir :: "event_export loader_fs"
  login_result :: "fault option"

text \<open>The block "Queue + worker" of \<^verbatim>\<open>main\<close> (index.ts, lines 141-168).\<close>

definition start_queue :: "startup \<Rightarrow> process \<Rightarrow> process" where
  "start_queue env p0 =
     (let p = do_step NewQueueManager p0
      in case new_queue_manager env of
        Inl err \<Rightarrow> plog Error ''Failed to start queue worker'' [] p
      | Inr qm \<Rightarrow>
         (let p' = do_step StartWorker p
          in case startWorker_result env of
            Some err \<Rightarrow> plog Error ''Failed to start queue worker'' [] p'
          | None \<Rightarrow> plog Info ''Queue worker started'' [] (p'\<lparr>queueManager := Some qm\<rparr>)))"

text \<open>\<^verbatim>\<open>main\<close> (index.ts, lines 120-211). \<^verbatim>\<open>process.exit\<close> ends the run.\<close>

definition main :: "startup \<Rightarrow> process \<Rightarrow> process" where
  "main env p0 =
     (if DISCORD_TOKEN env = None \<or> DISCORD_TOKEN env = Some []
      then (do_step (Exit 1)
              (do_step (ConsoleError ''Missing DISCORD_TOKEN in environment'') p0))
             \<lparr>exited := Some 1\<rparr>
      else
        (let p1 = do_step NewClient (do_step InitLogger p0);
             p2 = start_queue env p1;
             p3 = plog Info ''Commands loaded'' [] (loadCommands (commands_dir env) p2);
             p4 = plog Info ''Events loaded'' [] (loadEvents (events_dir env) p3);
             p5 = (do_step RegisterProcessHandlers p4)
                    \<lparr>listeners := listeners p4 @ [(''ready'', True)],
                     uncaught_listener := True,
                     once_listeners := once_listeners p4 @ [SIGINT, SIGTERM]\<rparr>;
             p6 = do_step Login p5
         in case login_result env of
           None \<Rightarrow> p6
         | Some err \<Rightarrow>
             (do_step (Exit 1) (plog Error ''Discord login failed'' [] p6))\<lparr>exited := Some 1\<rparr>))"

text \<open>
  \<^verbatim>\<open>shutdown(client, code)\<close> (index.ts, lines 213-238) is asynchronous: it runs up to
  its first \<^verbatim>\<open>await\<close> when it is called, and goes on when the awaited call settles.
  \<open>shutdown\<close> is the part run at the call; \<open>shutdown_resume\<close> is the continuation, given
  how the awaited call settled (\<open>None\<close>: resolved, \<open>Some err\<close>: rejected). Between the
  two, other callbacks may run.
\<close>

definition shutdown :: "int \<Rightarrow> process \<Rightarrow> process" where
  "shutdown code p =
     (if isShuttingDown p then p
      else
        (let p1 = plog Info ''Shutting down'' [] (p\<lparr>isShuttingDown := True\<rparr>)
         in if (case queueManager p1 of Some qm \<Rightarrow> has_stopWorker qm | None \<Rightarrow> False)
            then (do_step StopWorker p1)\<lparr>pending := AwaitStopWorker code\<rparr>
            else (do_step DestroyClient p1)\<lparr>pending := AwaitDestroy code\<rparr>))"

definition shutdown_resume :: "fault option \<Rightarrow> process \<Rightarrow> process" where
  "shutdown_resume r p =
     (case pending p of
        AwaitStopWorker code \<Rightarrow>
          (do_step DestroyClient
             (case r of
                None \<Rightarrow> plog Info ''Queue worker stopped'' [] p
              | Some err \<Rightarrow> plog Error ''Error while stopping queue worker'' [] p))
            \<lparr>pending := AwaitDestroy code\<rparr>
      | AwaitDestroy code \<Rightarrow>
          (do_step (Exit code)
             (case r of
                None \<Rightarrow> plog Info ''Discord client destroyed'' [] p
              | Some err \<Rightarrow> plog Error ''Error while destroying Discord client'' [] p))
            \<lparr>pending := NoAwait, exited := Some code\<rparr>
      | NoAwait \<Rightarrow> p)"

text \<open>
  What can happen while the process runs: a signal is delivered, an exception is not
  caught, the call awaited by \<^verbatim>\<open>shutdown\<close> settles. \<^verbatim>\<open>main\<close> registers the
  callbacks (index.ts, lines 194-202): \<^verbatim>\<open>shutdown(client, 1)\<close> with \<^verbatim>\<open>process.on\<close>
  for an uncaught exception, \<^verbatim>\<open>shutdown(client, 0)\<close> with \<^verbatim>\<open>process.once\<close> for
  SIGINT and for SIGTERM. A listener registered with \<^verbatim>\<open>once\<close> is removed before it is
  called. A signal that has no listener has its default effect: Node.js terminates the
  process at once. An uncaught exception without a listener ends the process with code
  1. After the end of the process nothing runs. (The listener of
  \<^verbatim>\<open>unhandledRejection\<close> only writes to the log.)
\<close>

datatype event = Signal signal | UncaughtException | Settled "fault option"

fun trigger_code :: "event \<Rightarrow> int option" where
  "trigger_code (Signal sg) = Some 0"
| "trigger_code UncaughtException = Some 1"
| "trigger_code (Settled r) = None"

definition handle :: "process \<Rightarrow> event \<Rightarrow> process" where
  "handle p ev =
     (if exited p \<noteq> None \<or> killed_by p \<noteq> None then p
      else case ev of
        Signal sg \<Rightarrow>
          if sg \<in> set (once_listeners p)
          then shutdown 0 (p\<lparr>once_listeners := removeAll sg (once_listeners p)\<rparr>)
          else p\<lparr>killed_by := Some sg\<rparr>
      | UncaughtException \<Rightarrow>
          if uncaught_listener p
          then shutdown 1 (plog Error ''Uncaught exception'' [] p)
          else p\<lparr>exited := Some 1\<rparr>
      | Settled r \<Rightarrow> shutdown_resume r p)"

definition run :: "event list \<Rightarrow> process \<Rightarrow> process" where
  "run evs p = foldl handle p evs"

text \<open>The exit code that the first signal or fault of a run asks for.\<close>

fun first_trigger_code :: "event list \<Rightarrow> int option" where
  "first_trigger_code [] = None"
| "first_trigger_code (ev # evs) =
     (case trigger_code ev of Some c \<Rightarrow> Some c | None \<Rightarrow> first_trigger_code evs)"

subsection \<open>Notions used in the statements and proofs\<close>



text \<open>
  The state in which \<^verbatim>\<open>main\<close> leaves a process that runs on: the three callbacks are
  registered and no shutdown has begun.
\<close>

definition awaiting_signals :: "process \<Rightarrow> bool" where
  "awaiting_signals p =
     (SIGINT \<in> set (once_listeners p) \<and> SIGTERM \<in> set (once_listeners p)
      \<and> uncaught_listener p \<and> \<not> isShuttingDown p \<and> pending p = NoAwait
      \<and> exited p = None \<and> killed_by p = None)"

text \<open>
  The invariant of a run of the process from such a state, whose steps so far are
  \<open>base\<close>: \<open>k\<close> is the exit code asked for by the first signal or fault of the run, if
  any, and \<open>made\<close> the steps made since.
\<close>

definition shutdown_inv :: "step list \<Rightarrow> int option \<Rightarrow> step list \<Rightarrow> process \<Rightarrow> bool" where
  "shutdown_inv base k made p =
     (steps p = base @ made \<and> uncaught_listener p \<and>
      (case k of
         None \<Rightarrow> awaiting_signals p \<and> made = []
       | Some c \<Rightarrow> isShuttingDown p \<and>
           (pending p = AwaitStopWorker c \<and> exited p = None \<and> made = [StopWorker]
            \<or> pending p = AwaitDestroy c \<and> exited p = None
                \<and> (made = [StopWorker, DestroyClient] \<or> made = [DestroyClient])
            \<or> pending p = NoAwait \<and> exited p = Some c
                \<and> (made = [StopWorker, DestroyClient, Exit c]
                     \<or> made = [DestroyClient, Exit c]))))"

text \<open>A frame condition used in the proofs: a computation that leaves the timers alone.\<close>

definition keeps_timers :: "'a io \<Rightarrow> bool" where
  "keeps_timers m =
     (\<forall>w. timers (snd (m w)) = timers w \<and> timer_seq (snd (m w)) = timer_seq w)"

subsection \<open>Sample inputs\<close>

text \<open>
  A state in which nothing has happened yet; an environment in which every call
  resolves, \<^verbatim>\<open>addJob\<close> with the given job and \<^verbatim>\<open>waitForJobCompletion\<close> with the given
  result; and one in which \<^verbatim>\<open>waitForJobCompletion\<close> times out.
\<close>

definition fresh_world :: world where
  "fresh_world = \<lparr>calls = [], logs = [], deferred = False, replied = False,
     timers = [], timer_seq = 0, invoked = []\<rparr>"

definition resolving :: "jsval \<Rightarrow> jsval \<Rightarrow> call list \<Rightarrow> jsval" where
  "resolving job result cs =
     (case last cs of
        AddJob r \<Rightarrow> job
      | WaitForJobCompletion i t \<Rightarrow> result
      | _ \<Rightarrow> JUndefined)"

definition resolving_env :: "jsval \<Rightarrow> jsval \<Rightarrow> env" where
  "resolving_env job result =
     \<lparr>settle = (\<lambda>cs. Resolves (resolving job result cs)),
      date_now = (\<lambda>cs. 0), ASK_TIMEOUT_MS = None\<rparr>"

definition timeout_env :: env where
  "timeout_env =
     \<lparr>settle = (\<lambda>cs. case last cs of
          AddJob r \<Rightarrow> Resolves (JObj [(''id'', JStr ''1'')])
        | WaitForJobCompletion i t \<Rightarrow> Rejects (Fault ''TimeoutError'' ''Job timed out'')
        | _ \<Rightarrow> Resolves JUndefined),
      date_now = (\<lambda>cs. 0), ASK_TIMEOUT_MS = None\<rparr>"

definition sample_interaction :: interaction where
  "sample_interaction =
     \<lparr>isChatInputCommand = True, commandName = ''ask'',
      options_question = Some ''What is Starknet?'', interaction_id = ''i1'',
      user_id = ''u1'', user_username = ''alice'', createdTimestamp = 0,
      client_queueManager = True\<rparr>"

definition sample_message :: message_in where
  "sample_message =
     \<lparr>author_bot = False, author_id = ''u1'', author_username = ''alice'',
      content = ''<@42> What is Starknet?'', message_id = ''m1'',
      mentions_users = [''42''], client_user_id = Some ''42'',
      client_has_queueManager = True, channel_send_is_function = True\<rparr>"

definition sample_context_menu :: interaction where
  "sample_context_menu =
     \<lparr>isChatInputCommand = False, commandName = ''report'',
      options_question = None, interaction_id = ''i2'',
      user_id = ''u1'', user_username = ''alice'', createdTimestamp = 0,
      client_queueManager = True\<rparr>"

text \<open>A handler that defers its reply and then throws.\<close>

definition failing_after_defer :: "env \<Rightarrow> interaction \<Rightarrow> unit io" where
  "failing_after_defer env ix =
     andThen (deferReply env) (\<lambda>u. throw (Fault ''Error'' ''boom''))"

definition sample_job :: jsval where
  "sample_job = JObj [(''id'', JStr ''1'')]"

definition long_answer :: string where
  "long_answer = replicate 5000 (CHR ''a'')"



definition new_process :: process where
  "new_process =
     \<lparr>registry = None, queueManager = None, isShuttingDown = False, listeners = [],
      proc_logs = [], once_listeners = [], uncaught_listener = False, steps = [],
      pending = NoAwait, exited = None, killed_by = None\<rparr>"

text \<open>
  A commands directory with two modules that both export a command named "ask" (and a
  file that is not a module).
\<close>

definition ask_v1 :: command where
  "ask_v1 = \<lparr>data = Some \<lparr>data_name = Some ''ask'', data_toJSON = None\<rparr>,
             execute = Some (askCommand_execute timeout_env)\<rparr>"

definition ask_v2 :: command where
  "ask_v2 = \<lparr>data = Some \<lparr>data_name = Some ''ask'', data_toJSON = None\<rparr>,
             execute = Some (askCommand_execute (resolving_env sample_job JNull))\<rparr>"

definition two_asks :: "command loader_fs" where
  "two_asks =
     \<lparr>readdir = Inr [''ask.ts'', ''README.md'', ''ask2.ts''],
      import_module = (\<lambda>f. if f = ''ask.ts'' then Inr [(''default'', Some ask_v1)]
                            else Inr [(''askCommand'', Some ask_v2)])\<rparr>"

definition no_events :: "event_export loader_fs" where
  "no_events = \<lparr>readdir = Inr [], import_module = (\<lambda>f. Inr [])\<rparr>"

definition sample_startup :: startup where
  "sample_startup =
     \<lparr>DISCORD_TOKEN = Some ''token'', new_queue_manager = Inr \<lparr>has_stopWorker = True\<rparr>,
      startWorker_result = None, commands_dir = two_asks, events_dir = no_events,
      login_result = None\<rparr>"

definition signals :: "event list" where
  "signals = [Signal SIGINT, UncaughtException,
              Settled (Some (Fault ''Error'' ''stop failed'')), Signal SIGTERM, Settled None,
              Signal SIGINT]"

section \<open>Properties\<close>

subsection \<open>The chunker\<close>

lemma ceil_div_step:
  assumes "0 < S" "0 < (d::nat)"
  shows "(d + S - 1) div S = Suc ((d - S + S - 1) div S)"
proof (cases "S \<le> d")
  case True
  have a: "d + S - 1 = (d - 1) + S" using assms by arith
  have b: "d - S + S - 1 = d - 1" using True by arith
  show ?thesis unfolding a b using assms(1) by (simp only: div_add_self2)
next
  case False
  have a: "d + S - 1 = (d - 1) + S" using assms by arith
  have b: "d - S + S - 1 = S - 1" using False by arith
  have c: "(d - 1) div S = 0" using False assms by (intro div_less) arith
  have e: "(S - 1) div S = 0" using assms by (intro div_less) arith
  show ?thesis unfolding a b e using assms(1) c by (simp only: div_add_self2)
qed

lemma toChunks_loop_returns:
  assumes "0 < S"
  shows "toChunks_loop T S i acc =
     Some (acc @ map (\<lambda>k. slice T (i + k * S) (i + k * S + S))
                   [0..<(length T - i + S - 1) div S])"
proof (induction "length T - i" arbitrary: i acc rule: less_induct)
  case less
  show ?case
  proof (cases "i < length T")
    case False
    then have "length T - i + S - 1 < S" using assms by arith
    then have z: "(length T - i + S - 1) div S = 0" by (rule div_less)
    have "toChunks_loop T S i acc = Some acc"
      using False by (subst toChunks_loop.simps) (simp only: if_False)
    then show ?thesis unfolding z by simp
  next
    case True
    let ?m = "(length T - (i + S) + S - 1) div S"
    have lt: "length T - (i + S) < length T - i" using True assms by arith
    have d: "0 < length T - i" using True by arith
    have e: "length T - i - S = length T - (i + S)" by arith
    have cnt: "(length T - i + S - 1) div S = Suc ?m"
      using ceil_div_step[OF assms d] unfolding e .
    have "toChunks_loop T S i acc = toChunks_loop T S (i + S) (acc @ [slice T i (i + S)])"
      using True by (subst toChunks_loop.simps) (simp only: if_True)
    also have "\<dots> = Some ((acc @ [slice T i (i + S)]) @
        map (\<lambda>k. slice T (i + S + k * S) (i + S + k * S + S)) [0..<?m])"
      by (rule less[OF lt])
    also have "map (\<lambda>k. slice T (i + S + k * S) (i + S + k * S + S)) [0..<?m]
        = map (\<lambda>k. slice T (i + k * S) (i + k * S + S)) (map Suc [0..<?m])"
      by (simp add: add.assoc)
    also have "map Suc [0..<?m] = [Suc 0..<Suc ?m]"
      by (simp only: map_Suc_upt)
    finally have "toChunks_loop T S i acc = Some (acc @
         map (\<lambda>k. slice T (i + k * S) (i + k * S + S)) (0 # [Suc 0..<Suc ?m]))"
      by simp
    moreover have "0 # [Suc 0..<Suc ?m] = [0..<Suc ?m]"
      by (simp only: upt_conv_Cons[of 0 "Suc ?m"] zero_less_Suc)
    ultimately show ?thesis unfolding cnt by (simp only:)
  qed
qed

lemma concat_slices:
  "concat (map (\<lambda>k. slice T (k * S) (k * S + S)) [0..<n]) = take (n * S) T"
proof (induction n)
  case 0
  show ?case by simp
next
  case (Suc n)
  have "take (n * S) T @ take S (drop (n * S) T) = take (n * S + S) T"
    by (simp only: take_add)
  with Suc show ?case by (simp add: slice_def add.commute)
qed

lemma toChunks_returns:
  assumes "0 < S"
  shows "toChunks T S =
     Some (map (\<lambda>k. slice T (k * S) (k * S + S)) [0..<(length T + S - 1) div S])"
  unfolding toChunks_def using toChunks_loop_returns[OF assms, of T 0 "[]"] by simp

lemma ceil_div_covers:
  assumes "0 < S"
  shows "(n::nat) \<le> ((n + S - 1) div S) * S"
proof -
  have "n + S - 1 = ((n + S - 1) div S) * S + (n + S - 1) mod S" by simp
  moreover have "(n + S - 1) mod S < S" using assms by simp
  ultimately show ?thesis by arith
qed

text \<open>
  C1. For every text \<open>T\<close> and positive chunk size \<open>S\<close>, \<open>toChunks\<close> returns; the chunks
  concatenated in order are \<open>T\<close>; every chunk has at most \<open>S\<close> elements; there are
  \<open>ceil(length T / S)\<close> of them (none for the empty text); and chunk \<open>k\<close> is the
  contiguous substring \<open>T[k*S, k*S + S)\<close>.
\<close>

theorem toChunks_reconstructs_bounded_minimal:
  assumes "0 < S"
  shows "\<exists>chunks. toChunks T S = Some chunks
           \<and> concat chunks = T
           \<and> (\<forall>c \<in> set chunks. length c \<le> S)
           \<and> length chunks = (length T + S - 1) div S
           \<and> (\<forall>k < length chunks. chunks ! k = slice T (k * S) (k * S + S))
           \<and> toChunks ([] :: 'a list) S = Some []"
proof -
  let ?n = "(length T + S - 1) div S"
  let ?cs = "map (\<lambda>k. slice T (k * S) (k * S + S)) [0..<?n]"
  have r: "toChunks T S = Some ?cs" by (rule toChunks_returns[OF assms])
  have "length T \<le> ?n * S" by (rule ceil_div_covers[OF assms])
  then have c: "concat ?cs = T" by (simp add: concat_slices)
  have l: "\<forall>c \<in> set ?cs. length c \<le> S" by (auto simp: slice_def)
  have k: "\<forall>k < length ?cs. ?cs ! k = slice T (k * S) (k * S + S)" by simp
  have e: "toChunks ([] :: 'a list) S = Some []"
    by (simp add: toChunks_def toChunks_loop.simps)
  show ?thesis using r c l k e by simp
qed

theorem toChunks_reconstructs_bounded_minimal_witness:
  "(0::nat) < 3
   \<and> (\<exists>chunks. toChunks ''abcdefg'' 3 = Some chunks
           \<and> concat chunks = ''abcdefg''
           \<and> length chunks = 3
           \<and> length (chunks ! 0) \<le> 3
           \<and> chunks ! 2 = ''g'')"
proof -
  have h: "(0::nat) < 3" by simp
  obtain chunks where c: "toChunks ''abcdefg'' 3 = Some chunks" "concat chunks = ''abcdefg''"
      "\<forall>c \<in> set chunks. length c \<le> 3"
      "length chunks = (length ''abcdefg'' + 3 - 1) div 3"
      "\<forall>k < length chunks. chunks ! k = slice ''abcdefg'' (k * 3) (k * 3 + 3)"
    using toChunks_reconstructs_bounded_minimal[OF h, of "''abcdefg''"] by blast
  have n: "length chunks = 3" using c(4) by simp
  then have "chunks ! 0 \<in> set chunks" by simp
  then have b: "length (chunks ! 0) \<le> 3" using c(3) by blast
  have "chunks ! 2 = slice ''abcdefg'' (2 * 3) (2 * 3 + 3)" using n c(5) by simp
  then have "chunks ! 2 = ''g''" by (simp add: slice_def)
  with h c(1,2) n b show ?thesis by blast
qed

lemma toChunks_default_returns:
  "toChunks text ask_chunk_size \<noteq> None" "toChunks text mention_chunk_size \<noteq> None"
  by (simp_all add: toChunks_returns ask_chunk_size_def mention_chunk_size_def)

lemma toChunks_single:
  assumes "0 < length T" "length T \<le> S"
  shows "toChunks T S = Some [T]"
proof -
  have "toChunks_loop T S 0 [] = toChunks_loop T S S [slice T 0 S]"
    using assms by (subst toChunks_loop.simps) simp
  also have "\<dots> = Some [slice T 0 S]"
    using assms by (subst toChunks_loop.simps) simp
  finally show ?thesis using assms by (simp add: toChunks_def slice_def)
qed

text \<open>With size 0 the loop never ends on a text that is not empty.\<close>

lemma toChunks_loop_zero_diverges:
  assumes "toChunks_loop T sz i acc = Some y"
  shows "\<not> (sz = 0 \<and> i < length T)"
proof (rule toChunks_loop.raw_induct[where P = "\<lambda>T sz i acc y. \<not> (sz = 0 \<and> i < length T)",
         OF _ assms])
  fix loop :: "'a list \<Rightarrow> nat \<Rightarrow> nat \<Rightarrow> 'a list list \<Rightarrow> 'a list list option"
    and s sz i chunks y
  assume ih: "\<And>s sz i chunks y. loop s sz i chunks = Some y \<Longrightarrow> \<not> (sz = 0 \<and> i < length s)"
    and st: "(if i < length s
              then loop s sz (i + sz) (chunks @ [slice s i (i + sz)])
              else Some chunks) = Some y"
  show "\<not> (sz = 0 \<and> i < length s)"
  proof
    assume z: "sz = 0 \<and> i < length s"
    then have "loop s sz (i + sz) (chunks @ [slice s i (i + sz)]) = Some y"
      using st by simp
    then have "\<not> (sz = 0 \<and> i + sz < length s)" by (rule ih)
    with z show False by simp
  qed
qed

lemma toChunks_zero_diverges: "T \<noteq> [] \<Longrightarrow> toChunks T 0 = None"
  using toChunks_loop_zero_diverges[of T 0 0 "[]"]
  by (cases "toChunks T 0") (auto simp: toChunks_def)

subsection \<open>Answer extraction\<close>

text \<open>
  C2. For every job result payload, \<open>pickAnswer\<close> returns the value of the first
  populated field in the order answer, output, message, data (an earlier populated field
  wins over a later one), and the fixed string "No answer received." when none of the
  four is populated. A field is populated when its value is neither \<^verbatim>\<open>null\<close> nor
  \<^verbatim>\<open>undefined\<close>.
\<close>

theorem pickAnswer_first_populated:
  "pickAnswer result = first_populated_field result"
  by (simp add: pickAnswer_def first_populated_field_def answer_priority_def
      nullish_coalesce_def populated_def)

subsection \<open>The ask command\<close>

lemmas io_defs = ret_def throw_def andThen_def try_catch_def await_call_def write_log_def
  reply_def deferReply_def editReply_def

lemma queue_unavailable_message:
  "ask_error_message (Fault ''Error'' ''Queue manager unavailable'')
     = ''Error while processing the question.''"
  by (simp add: ask_error_message_def)

text \<open>
  C10. When no queue manager is attached to the client, the ask command, run on an
  interaction that has neither been deferred nor replied to, makes exactly one call:
  the initial reply, ephemeral, with the generic error text. So it fails before
  \<^verbatim>\<open>deferReply\<close> (the reply is not an edit of a deferred reply) and before
  \<^verbatim>\<open>addJob\<close> (no job is added). The handler returns normally when that reply is
  delivered.
\<close>

theorem ask_without_queue_manager:
  assumes "\<not> client_queueManager ix" "\<not> deferred w" "\<not> replied w"
  shows "calls (snd (askCommand_execute env ix w))
           = calls w @ [Reply (Content ''Error while processing the question.'') True]
       \<and> fst (askCommand_execute env ix w)
           = (case settle env
                     (calls w @ [Reply (Content ''Error while processing the question.'') True]) of
                Resolves v \<Rightarrow> Inr ()
              | Rejects e \<Rightarrow> Inl e)"
  using assms
  by (simp add: askCommand_execute_def ask_try_def ask_catch_def io_defs
      queue_unavailable_message Let_def split: outcome.splits)

theorem ask_without_queue_manager_witness:
  "\<not> client_queueManager (sample_interaction\<lparr>client_queueManager := False\<rparr>)
   \<and> \<not> deferred fresh_world \<and> \<not> replied fresh_world
   \<and> calls (snd (askCommand_execute (resolving_env JNull JNull)
                   (sample_interaction\<lparr>client_queueManager := False\<rparr>) fresh_world))
       = [Reply (Content ''Error while processing the question.'') True]
   \<and> fst (askCommand_execute (resolving_env JNull JNull)
             (sample_interaction\<lparr>client_queueManager := False\<rparr>) fresh_world) = Inr ()"
proof -
  let ?ix = "sample_interaction\<lparr>client_queueManager := False\<rparr>"
  have h: "\<not> client_queueManager ?ix" "\<not> deferred fresh_world" "\<not> replied fresh_world"
    by (simp_all add: fresh_world_def)
  have c: "calls fresh_world = []" by (simp add: fresh_world_def)
  show ?thesis
    using h ask_without_queue_manager[OF h, of "resolving_env JNull JNull"]
    by (simp add: c resolving_env_def)
qed







subsection \<open>The dispatcher\<close>

text \<open>
  C3. When the dispatcher has called the \<^verbatim>\<open>execute\<close> of the registered command and the
  call threw, leaving the state \<open>w1\<close>, the dispatcher makes exactly one further call: a
  follow-up when the latch is set in \<open>w1\<close> (the handler had deferred or replied), an
  initial reply otherwise, both ephemeral with the generic error text. In particular
  after a handler that deferred there is no second initial reply. The handler's
  exception does not leave the dispatcher: the dispatcher returns normally when its
  error reply is delivered, and otherwise throws what that call threw.
\<close>

theorem dispatch_handler_error_one_reply:
  assumes "isChatInputCommand ix"
    and "commands = Some m" "m (commandName ix) = Some c"
    and "call_execute c ix w = (Inl err, w1)"
    and "sent = (if deferred w1 \<or> replied w1
                 then FollowUp (Content ''There was an error executing this command.'') True
                 else Reply (Content ''There was an error executing this command.'') True)"
  shows "calls (snd (interactionCreate_execute env commands ix w)) = calls w1 @ [sent]
       \<and> fst (interactionCreate_execute env commands ix w)
           = (case settle env (calls w1 @ [sent]) of
                Resolves v \<Rightarrow> Inr ()
              | Rejects e \<Rightarrow> Inl e)"
  using assms
  by (simp add: interactionCreate_execute_def io_defs followUp_def Let_def split: outcome.splits)

theorem dispatch_handler_error_one_reply_witness:
  "isChatInputCommand sample_interaction
   \<and> fst (call_execute
            \<lparr>data = None, execute = Some (failing_after_defer (resolving_env JNull JNull))\<rparr>
            sample_interaction fresh_world) = Inl (Fault ''Error'' ''boom'')
   \<and> calls (snd (interactionCreate_execute (resolving_env JNull JNull)
        (Some [''ask'' \<mapsto>
           \<lparr>data = None, execute = Some (failing_after_defer (resolving_env JNull JNull))\<rparr>])
        sample_interaction fresh_world))
      = [DeferReply, FollowUp (Content ''There was an error executing this command.'') True]
   \<and> fst (interactionCreate_execute (resolving_env JNull JNull)
        (Some [''ask'' \<mapsto>
           \<lparr>data = None, execute = Some (failing_after_defer (resolving_env JNull JNull))\<rparr>])
        sample_interaction fresh_world) = Inr ()"
proof -
  let ?env = "resolving_env JNull JNull"
  let ?c = "\<lparr>data = None, execute = Some (failing_after_defer ?env)\<rparr>"
  let ?w1 = "fresh_world\<lparr>invoked := [''ask''], calls := [DeferReply], deferred := True\<rparr>"
  have a: "isChatInputCommand sample_interaction" by (simp add: sample_interaction_def)
  have b: "[''ask'' \<mapsto> ?c] (commandName sample_interaction) = Some ?c"
    by (simp add: sample_interaction_def)
  have e: "call_execute ?c sample_interaction fresh_world = (Inl (Fault ''Error'' ''boom''), ?w1)"
    by (simp add: call_execute_def failing_after_defer_def io_defs resolving_env_def
        fresh_world_def sample_interaction_def)
  have d: "deferred ?w1" by simp
  show ?thesis
    using a e dispatch_handler_error_one_reply[where ix = sample_interaction
        and m = "[''ask'' \<mapsto> ?c]" and c = ?c and w = fresh_world and env = ?env,
        OF a refl b e refl]
    by (simp add: resolving_env_def fresh_world_def)
qed

text \<open>
  C5, as the code has it. Dispatch of an interaction that names a command absent from
  the registry calls no handler. It sends one reply, the ephemeral "Unknown command.",
  when the interaction is a chat-input command whose latch is not set; it sends nothing
  when the interaction is not a chat-input command (the dispatcher returns at once) or
  when the latch is already set.
\<close>

theorem dispatch_unknown_command:
  assumes "(case commands of None \<Rightarrow> None | Some m \<Rightarrow> m (commandName ix)) = None"
  shows "calls (snd (interactionCreate_execute env commands ix w))
           = calls w @ (if isChatInputCommand ix \<and> \<not> replied w \<and> \<not> deferred w
                        then [Reply (Content ''Unknown command.'') True] else [])
       \<and> invoked (snd (interactionCreate_execute env commands ix w)) = invoked w"
  using assms
  by (simp add: interactionCreate_execute_def io_defs Let_def split: outcome.splits)

theorem dispatch_unknown_command_witness:
  "(case Some (Map.empty :: string \<rightharpoonup> command) of
      None \<Rightarrow> None | Some m \<Rightarrow> m (commandName sample_interaction)) = None
   \<and> calls (snd (interactionCreate_execute (resolving_env JNull JNull) (Some Map.empty)
        sample_interaction fresh_world)) = [Reply (Content ''Unknown command.'') True]
   \<and> invoked (snd (interactionCreate_execute (resolving_env JNull JNull) (Some Map.empty)
        sample_interaction fresh_world)) = []"
proof -
  have h: "(case Some (Map.empty :: string \<rightharpoonup> command) of
      None \<Rightarrow> None | Some m \<Rightarrow> m (commandName sample_interaction)) = None" by simp
  show ?thesis
    using dispatch_unknown_command[OF h, of "resolving_env JNull JNull" fresh_world]
    by (simp add: fresh_world_def sample_interaction_def)
qed

text \<open>
  The claim as stated fails: a context-menu command interaction names the command
  "report", which the empty registry does not hold, and the dispatcher sends nothing.
\<close>

theorem dispatch_unknown_command_counterexample:
  "commandName sample_context_menu = ''report''
   \<and> (Map.empty :: string \<rightharpoonup> command) ''report'' = None
   \<and> calls (snd (interactionCreate_execute (resolving_env JNull JNull) (Some Map.empty)
        sample_context_menu fresh_world)) = []"
  by (simp add: interactionCreate_execute_def sample_context_menu_def fresh_world_def ret_def)

subsection \<open>The typing timer of the mention handler\<close>

lemma keeps_ret: "keeps_timers (ret v)" by (simp add: keeps_timers_def ret_def)
lemma keeps_throw: "keeps_timers (throw e)" by (simp add: keeps_timers_def throw_def)
lemma keeps_now: "keeps_timers (now env)" by (simp add: keeps_timers_def now_def)
lemma keeps_write_log: "keeps_timers (write_log l t c)" by (simp add: keeps_timers_def write_log_def)
lemma keeps_await_call: "keeps_timers (await_call env c)"
  by (simp add: keeps_timers_def await_call_def Let_def split: outcome.splits)

lemma keeps_andThen:
  assumes "keeps_timers m" "\<And>v. keeps_timers (f v)"
  shows "keeps_timers (andThen m f)"
  unfolding keeps_timers_def
proof
  fix w
  obtain r w' where mw: "m w = (r, w')" by (cases "m w")
  have a: "timers w' = timers w \<and> timer_seq w' = timer_seq w"
    using assms(1) mw unfolding keeps_timers_def by (metis snd_conv)
  show "timers (snd (andThen m f w)) = timers w \<and> timer_seq (snd (andThen m f w)) = timer_seq w"
  proof (cases r)
    case (Inl e)
    then show ?thesis using a mw by (simp add: andThen_def)
  next
    case (Inr v)
    have "timers (snd (f v w')) = timers w' \<and> timer_seq (snd (f v w')) = timer_seq w'"
      using assms(2)[of v] unfolding keeps_timers_def by blast
    then show ?thesis using a mw Inr by (simp add: andThen_def)
  qed
qed

lemma keeps_try_catch:
  assumes "keeps_timers m" "\<And>e. keeps_timers (h e)"
  shows "keeps_timers (try_catch m h)"
  unfolding keeps_timers_def
proof
  fix w
  obtain r w' where mw: "m w = (r, w')" by (cases "m w")
  have a: "timers w' = timers w \<and> timer_seq w' = timer_seq w"
    using assms(1) mw unfolding keeps_timers_def by (metis snd_conv)
  show "timers (snd (try_catch m h w)) = timers w \<and> timer_seq (snd (try_catch m h w)) = timer_seq w"
  proof (cases r)
    case (Inr v)
    then show ?thesis using a mw by (simp add: try_catch_def)
  next
    case (Inl e)
    have "timers (snd (h e w')) = timers w' \<and> timer_seq (snd (h e w')) = timer_seq w'"
      using assms(2)[of e] unfolding keeps_timers_def by blast
    then show ?thesis using a mw Inl by (simp add: try_catch_def)
  qed
qed

lemma keeps_forEach:
  assumes "\<And>x. keeps_timers (f x)"
  shows "keeps_timers (forEach xs f)"
  unfolding keeps_timers_def
proof (induction xs)
  case Nil
  show ?case by simp
next
  case (Cons x xs)
  show ?case
  proof
    fix w
    obtain r w' where fw: "f x w = (r, w')" by (cases "f x w")
    have a: "timers w' = timers w \<and> timer_seq w' = timer_seq w"
      using assms[of x] fw unfolding keeps_timers_def by (metis snd_conv)
    show "timers (snd (forEach (x # xs) f w)) = timers w
        \<and> timer_seq (snd (forEach (x # xs) f w)) = timer_seq w"
      using a fw Cons by (cases r) simp_all
  qed
qed

lemma keeps_message_reply: "keeps_timers (message_reply env b)"
  unfolding message_reply_def by (intro keeps_andThen keeps_await_call keeps_ret)

lemma keeps_channel_send: "keeps_timers (channel_send env b)"
  unfolding channel_send_def by (intro keeps_andThen keeps_await_call keeps_ret)

lemma keeps_sendTyping: "keeps_timers (sendTyping env)"
  unfolding sendTyping_def by (intro keeps_andThen keeps_await_call keeps_ret)

lemma keeps_get_member: "keeps_timers (get_member v k)"
  by (simp add: get_member_def keeps_ret keeps_throw)

lemma keeps_as_string: "keeps_timers (as_string v)"
  by (cases v) (simp_all add: as_string_def keeps_ret keeps_throw)

lemma keeps_setDescription: "keeps_timers (setDescription d)"
  by (simp add: setDescription_def keeps_ret keeps_throw)

lemma keeps_for_chunks:
  assumes "\<And>x. keeps_timers (f x)"
  shows "keeps_timers (for_chunks cs f)"
  by (cases cs) (simp_all add: for_chunks_def keeps_throw keeps_forEach assms)

lemma keeps_mention_answer: "keeps_timers (mention_answer env msg question)"
  unfolding mention_answer_def
  by (intro keeps_andThen keeps_now keeps_await_call keeps_get_member keeps_as_string
      keeps_setDescription keeps_message_reply)
    (simp add: keeps_for_chunks keeps_channel_send keeps_ret)

lemma keeps_mention_catch:
  "keeps_timers (andThen (write_log Error ''messageCreate handler failed'' []) (\<lambda>u.
          try_catch (message_reply env (Content ''Error processing your question. Try /ask.''))
            (\<lambda>e. ret ())))"
  by (intro keeps_andThen keeps_try_catch keeps_write_log keeps_message_reply keeps_ret)

lemma typing_timer_scope:
  assumes fresh: "timer_seq w \<notin> set (timers w)"
  shows "timers (snd (andThen setInterval (\<lambda>typer.
            try_finally (mention_answer env msg question) (clearInterval typer)) w)) = timers w"
proof -
  let ?w1 = "w\<lparr>timers := timers w @ [timer_seq w], timer_seq := Suc (timer_seq w)\<rparr>"
  obtain r w2 where b: "mention_answer env msg question ?w1 = (r, w2)"
    by (cases "mention_answer env msg question ?w1")
  have "timers w2 = timers ?w1"
    using keeps_mention_answer[of env msg question] b unfolding keeps_timers_def by (metis snd_conv)
  then have "removeAll (timer_seq w) (timers w2) = timers w"
    using fresh by simp
  then show ?thesis
    by (simp add: andThen_def setInterval_def try_finally_def clearInterval_def b)
qed

lemma mention_try_timers:
  assumes fresh: "timer_seq w \<notin> set (timers w)"
  shows "timers (snd (mention_try env msg w)) = timers w"
proof -
  have k: "\<And>b. timers (snd (message_reply env b w)) = timers w"
    using keeps_message_reply unfolding keeps_timers_def by blast
  have k': "timers (snd (ret () w)) = timers w" by (simp add: ret_def)
  have t: "\<And>q. timers (snd (andThen (sendTyping env) (\<lambda>u.
                    andThen setInterval (\<lambda>typer.
                    try_finally (mention_answer env msg q) (clearInterval typer))) w)) = timers w"
  proof -
    fix q
    obtain r w1 where s: "sendTyping env w = (r, w1)" by (cases "sendTyping env w")
    have f: "timers w1 = timers w" "timer_seq w1 = timer_seq w"
      using keeps_sendTyping[of env] s unfolding keeps_timers_def by (metis snd_conv)+
    then have "timer_seq w1 \<notin> set (timers w1)" using fresh by simp
    from typing_timer_scope[OF this, of env msg q] f s
    show "timers (snd (andThen (sendTyping env) (\<lambda>u.
                    andThen setInterval (\<lambda>typer.
                    try_finally (mention_answer env msg q) (clearInterval typer))) w)) = timers w"
      by (cases r) (simp_all add: andThen_def[of "sendTyping env"])
  qed
  show ?thesis
    unfolding mention_try_def Let_def
    by (simp add: k k' t split: option.splits)
qed

text \<open>
  C9. Whatever the environment does (every call may resolve or be rejected, a timeout
  of \<^verbatim>\<open>waitForJobCompletion\<close> included), after \<^verbatim>\<open>messageCreateEvent.execute\<close> the
  running timers are those that ran before: the typing timer that the handler starts
  before it waits for the job is cleared by the \<^verbatim>\<open>finally\<close> block on every path.
  (The id of a new timer is not that of a running one.)
\<close>

theorem typing_timer_never_leaks:
  assumes fresh: "timer_seq w \<notin> set (timers w)"
  shows "timers (snd (messageCreate_execute env msg w)) = timers w"
proof -
  obtain r w1 where t: "mention_try env msg w = (r, w1)" by (cases "mention_try env msg w")
  have a: "timers w1 = timers w" using mention_try_timers[OF fresh, of env msg] t by simp
  show ?thesis
  proof (cases r)
    case (Inr v)
    then show ?thesis using a t by (simp add: messageCreate_execute_def try_catch_def)
  next
    case (Inl e)
    have "timers (snd ((andThen (write_log Error ''messageCreate handler failed'' []) (\<lambda>u.
          try_catch (message_reply env (Content ''Error processing your question. Try /ask.''))
            (\<lambda>e. ret ()))) w1)) = timers w1"
      using keeps_mention_catch[of env] unfolding keeps_timers_def by blast
    then show ?thesis using a t Inl
      by (simp add: messageCreate_execute_def try_catch_def[of "mention_try env msg"])
  qed
qed

theorem typing_timer_never_leaks_witness:
  "timer_seq fresh_world \<notin> set (timers fresh_world)
   \<and> timer_seq (snd (messageCreate_execute timeout_env sample_message fresh_world)) = 1
   \<and> timers (snd (messageCreate_execute timeout_env sample_message fresh_world)) = []"
proof -
  have f: "timer_seq fresh_world \<notin> set (timers fresh_world)" by (simp add: fresh_world_def)
  have s: "timer_seq (snd (messageCreate_execute timeout_env sample_message fresh_world)) = 1"
    by (simp add: messageCreate_execute_def mention_try_def sample_message_def fresh_world_def
        timeout_env_def strip_mentions_def trim_def is_space_def mention_answer_def io_defs
        try_finally_def sendTyping_def setInterval_def clearInterval_def now_def
        get_member_def message_reply_def Let_def timeoutMs_def)
  show ?thesis
    using f s typing_timer_never_leaks[OF f, of timeout_env sample_message]
    by (simp add: fresh_world_def)
qed

subsection \<open>Delivery in the mention handler\<close>

text \<open>
  The mention handler follows the same policy as the ask command, with
  \<^verbatim>\<open>message.reply\<close> for the primary reply, \<^verbatim>\<open>channel.send\<close> for the rest and a
  ceiling of 1900.
\<close>

lemma forEach_channel_send_resolving:
  assumes "\<And>cs. settle env cs = Resolves (val cs)"
  shows "fst (forEach chunks (\<lambda>chunk. channel_send env (Content chunk)) w) = Inr ()
       \<and> calls (snd (forEach chunks (\<lambda>chunk. channel_send env (Content chunk)) w))
           = calls w @ map (\<lambda>chunk. ChannelSend (Content chunk)) chunks
       \<and> timers (snd (forEach chunks (\<lambda>chunk. channel_send env (Content chunk)) w)) = timers w"
proof (induction chunks arbitrary: w)
  case Nil
  show ?case by simp
next
  case (Cons c cs)
  have step: "channel_send env (Content c) w
      = (Inr (), w\<lparr>calls := calls w @ [ChannelSend (Content c)]\<rparr>)"
    by (simp add: io_defs channel_send_def assms)
  show ?case
    using Cons[of "w\<lparr>calls := calls w @ [ChannelSend (Content c)]\<rparr>"]
    by (simp add: step)
qed

lemma mention_delivers_primary_then_sends:
  assumes m: "\<not> author_bot msg" "client_user_id msg = Some me" "me \<in> set (mentions_users msg)"
      "client_has_queueManager msg" "channel_send_is_function msg"
    and q: "question = trim (strip_mentions me (content msg))" "question \<noteq> []"
    and ok: "\<And>cs. settle env cs = Resolves (val cs)"
    and c1: "c1 = calls w @ [SendTyping,
               AddJob \<lparr>platform = DISCORD, userId = author_id msg, userName = author_username msg,
                 message = question, messageId = message_id msg,
                 timestamp = date_now env (calls w @ [SendTyping])\<rparr>]"
    and job: "\<not> is_nullish (val c1)"
    and c2: "c2 = c1 @ [WaitForJobCompletion (opt_member (val c1) ''id'') (timeoutMs env)]"
    and ans: "pickAnswer (val c2) = JStr answer" "answer \<noteq> []"
    and primary: "primary = MessageReply (Embeds [\<lparr>title = ''Answer'',
                     description = take 4096 answer,
                     footer = AskedBy (author_username msg)\<rparr>])"
  shows "\<exists>chunks. toChunks (drop 4096 answer) mention_chunk_size = Some chunks
          \<and> concat chunks = drop 4096 answer
          \<and> fst (messageCreate_execute env msg w) = Inr ()
          \<and> calls (snd (messageCreate_execute env msg w))
              = c2 @ [primary] @ (if length answer \<le> 4096 then []
                                  else map (\<lambda>chunk. ChannelSend (Content chunk)) chunks)"
proof -
  have pos: "0 < mention_chunk_size" by (simp add: mention_chunk_size_def)
  obtain chunks where ch: "toChunks (drop 4096 answer) mention_chunk_size = Some chunks"
      "concat chunks = drop 4096 answer"
    using toChunks_returns[OF pos, of "drop 4096 answer"] ceil_div_covers[OF pos]
    by (simp add: concat_slices)
  have valid: "setDescription (take 4096 answer) = ret (take 4096 answer)"
    using ans(2) by (cases answer) (simp_all add: setDescription_def)
  let ?w1 = "w\<lparr>calls := calls w @ [SendTyping], timers := timers w @ [timer_seq w],
                timer_seq := Suc (timer_seq w)\<rparr>"
  let ?w3 = "?w1\<lparr>calls := c2 @ [primary]\<rparr>"
  have ans': "mention_answer env msg question ?w1 =
      (if length answer \<le> 4096 then (Inr (), ?w3)
       else forEach chunks (\<lambda>chunk. channel_send env (Content chunk)) ?w3)"
    using job ans valid
    by (simp add: mention_answer_def io_defs message_reply_def ok c1 c2 primary now_def
        get_member_def as_string_def Let_def slice_def slice_from_def for_chunks_def ch
        del: take_all)
  obtain w4 where w4: "mention_answer env msg question ?w1 = (Inr (), w4)"
      "calls w4 = c2 @ [primary] @ (if length answer \<le> 4096 then []
                                  else map (\<lambda>chunk. ChannelSend (Content chunk)) chunks)"
  proof (cases "length answer \<le> 4096")
    case True
    then show ?thesis using that[of ?w3] by (simp add: ans')
  next
    case False
    from forEach_channel_send_resolving[OF ok, of chunks ?w3]
    obtain w' where "forEach chunks (\<lambda>chunk. channel_send env (Content chunk)) ?w3 = (Inr (), w')"
      "calls w' = c2 @ [primary] @ map (\<lambda>chunk. ChannelSend (Content chunk)) chunks"
      by (cases "forEach chunks (\<lambda>chunk. channel_send env (Content chunk)) ?w3") auto
    with False show ?thesis using that[of w'] by (simp add: ans')
  qed
  have "mention_try env msg w = (Inr (), w4\<lparr>timers := removeAll (timer_seq w) (timers w4)\<rparr>)"
    using m q(2) q(1)[symmetric]
    by (simp add: mention_try_def Let_def io_defs sendTyping_def ok setInterval_def
        try_finally_def clearInterval_def w4(1))
  then have "fst (messageCreate_execute env msg w) = Inr ()
     \<and> calls (snd (messageCreate_execute env msg w)) = calls w4"
    by (simp add: messageCreate_execute_def try_catch_def)
  with ch w4(2) show ?thesis by auto
qed

subsection \<open>The command loader\<close>






subsection \<open>Start-up\<close>











subsection \<open>Shutdown\<close>

lemma first_trigger_code_snoc:
  "first_trigger_code (evs @ [ev]) =
     (case first_trigger_code evs of Some c \<Rightarrow> Some c | None \<Rightarrow> trigger_code ev)"
  by (induction evs) (simp_all split: option.splits)

lemma listener_present:
  "SIGINT \<in> set ls \<Longrightarrow> SIGTERM \<in> set ls \<Longrightarrow> sg \<in> set ls"
  by (cases sg) simp_all

lemma shutdown_inv_handle:
  assumes "shutdown_inv base k made p"
  shows "\<exists>made'. shutdown_inv base
           (case k of Some c \<Rightarrow> Some c | None \<Rightarrow> trigger_code ev) made' (handle p ev)"
proof (cases k)
  case None
  with assms show ?thesis
    by (cases ev)
       (auto simp: shutdown_inv_def awaiting_signals_def handle_def shutdown_def
          shutdown_resume_def plog_def do_step_def Let_def listener_present
          split: option.splits)
next
  case (Some c)
  with assms show ?thesis
    by (cases ev)
       (auto simp: shutdown_inv_def handle_def shutdown_def shutdown_resume_def plog_def
          do_step_def Let_def split: option.splits)
qed

lemma shutdown_inv_run:
  assumes "awaiting_signals p0"
  shows "\<exists>made. shutdown_inv (steps p0) (first_trigger_code evs) made (run evs p0)"
proof (induction evs rule: rev_induct)
  case Nil
  show ?case using assms by (simp add: run_def shutdown_inv_def awaiting_signals_def)
next
  case (snoc ev evs)
  then obtain made where d: "shutdown_inv (steps p0) (first_trigger_code evs) made (run evs p0)"
    by blast
  have "run (evs @ [ev]) p0 = handle (run evs p0) ev" by (simp add: run_def)
  then show ?case
    using shutdown_inv_handle[OF d, of ev] by (simp add: first_trigger_code_snoc)
qed

lemma run_after_kill: "killed_by p \<noteq> None \<Longrightarrow> run evs p = p"
  by (induction evs) (simp_all add: run_def handle_def)

lemma run_Cons: "run (ev # evs) p = run evs (handle p ev)"
  by (simp add: run_def)

text \<open>
  C7, as the code has it. From the state in which \<^verbatim>\<open>main\<close> leaves the process, and
  for every sequence of signals, faults and settled calls: the steps made during the
  run hold \<^verbatim>\<open>stopWorker\<close> and \<^verbatim>\<open>client.destroy\<close> at most once each; a call of
  \<open>shutdown\<close> that finds \<^verbatim>\<open>isShuttingDown\<close> set changes nothing; when \<^verbatim>\<open>stopWorker\<close>
  settles, resolved or rejected, the next call is \<^verbatim>\<open>client.destroy\<close>; when the
  process has exited, its code is the one asked for by the first signal or fault (0 for
  SIGINT and SIGTERM, 1 for an uncaught exception); and when a signal or fault is
  followed by the two awaited calls settling, however they settle, the process has
  exited with that code. But a second delivery of the same signal is not a no-op: its
  listener was registered with \<^verbatim>\<open>process.once\<close> and is gone, so the signal
  terminates the process at once; nothing runs after it and \<^verbatim>\<open>process.exit\<close> is not
  reached.
\<close>

theorem shutdown_runs_once:
  assumes "awaiting_signals p0"
  shows "(\<exists>made. steps (run evs p0) = steps p0 @ made
            \<and> count_list made StopWorker \<le> 1 \<and> count_list made DestroyClient \<le> 1)
       \<and> (isShuttingDown p \<longrightarrow> shutdown code p = p)
       \<and> (pending p = AwaitStopWorker code \<longrightarrow>
            steps (shutdown_resume r p) = steps p @ [DestroyClient])
       \<and> (\<forall>c. exited (run evs p0) = Some c \<longrightarrow> first_trigger_code evs = Some c)
       \<and> (\<forall>c. trigger_code ev = Some c \<longrightarrow>
            exited (run [ev, Settled r1, Settled r2] p0) = Some c)
       \<and> killed_by (run (Signal sg # Signal sg # evs) p0) = Some sg
       \<and> exited (run (Signal sg # Signal sg # evs) p0) = None
       \<and> steps (run (Signal sg # Signal sg # evs) p0) = steps (run [Signal sg] p0)"
proof -
  obtain made where inv: "shutdown_inv (steps p0) (first_trigger_code evs) made (run evs p0)"
    using shutdown_inv_run[OF assms] by blast
  have s: "steps (run evs p0) = steps p0 @ made"
    using inv by (simp add: shutdown_inv_def)
  have a: "count_list made StopWorker \<le> 1"
    using inv by (auto simp: shutdown_inv_def split: option.splits)
  have b: "count_list made DestroyClient \<le> 1"
    using inv by (auto simp: shutdown_inv_def split: option.splits)
  have c: "isShuttingDown p \<longrightarrow> shutdown code p = p" by (simp add: shutdown_def)
  have d: "pending p = AwaitStopWorker code \<longrightarrow>
            steps (shutdown_resume r p) = steps p @ [DestroyClient]"
    by (cases r) (simp_all add: shutdown_resume_def do_step_def plog_def)
  have e: "\<forall>c. exited (run evs p0) = Some c \<longrightarrow> first_trigger_code evs = Some c"
    using inv by (auto simp: shutdown_inv_def awaiting_signals_def split: option.splits)
  have f: "\<forall>c. trigger_code ev = Some c \<longrightarrow>
            exited (run [ev, Settled r1, Settled r2] p0) = Some c"
    using assms
    by (cases ev)
       (auto simp: awaiting_signals_def run_def handle_def shutdown_def shutdown_resume_def
          plog_def do_step_def Let_def listener_present split: option.splits)
  let ?p1 = "run [Signal sg] p0"
  have p1: "exited ?p1 = None" "killed_by ?p1 = None" "sg \<notin> set (once_listeners ?p1)"
    using assms
    by (cases sg; simp add: awaiting_signals_def run_def handle_def shutdown_def plog_def
          do_step_def Let_def)+
  let ?p2 = "?p1\<lparr>killed_by := Some sg\<rparr>"
  have p2: "handle ?p1 (Signal sg) = ?p2"
    using p1 by (simp add: handle_def)
  have "run (Signal sg # Signal sg # evs) p0 = run evs (handle ?p1 (Signal sg))"
    by (simp add: run_def)
  also have "\<dots> = ?p2" unfolding p2 by (rule run_after_kill) simp
  finally have g: "run (Signal sg # Signal sg # evs) p0 = ?p2" .
  have h: "killed_by (run (Signal sg # Signal sg # evs) p0) = Some sg"
      "exited (run (Signal sg # Signal sg # evs) p0) = None"
      "steps (run (Signal sg # Signal sg # evs) p0) = steps (run [Signal sg] p0)"
    unfolding g using p1 by simp_all
  show ?thesis using s a b c d e f h by blast
qed

lemma started_process:
  "awaiting_signals (main sample_startup new_process)"
  "queueManager (main sample_startup new_process) = Some \<lparr>has_stopWorker = True\<rparr>"
  "steps (main sample_startup new_process)
     = [InitLogger, NewClient, NewQueueManager, StartWorker, ReadDir ''commands'',
        Import ''ask.ts'', Import ''ask2.ts'', ReadDir ''events'',
        RegisterProcessHandlers, Login]"
  "isShuttingDown (main sample_startup new_process) = False"
  "exited (main sample_startup new_process) = None"
  "killed_by (main sample_startup new_process) = None"
  "uncaught_listener (main sample_startup new_process)"
  "once_listeners (main sample_startup new_process) = [SIGINT, SIGTERM]"
  by (simp_all add: awaiting_signals_def main_def sample_startup_def start_queue_def
      new_process_def loadCommands_def load_command_file_def two_asks_def Let_def
      loadEvents_def no_events_def
      is_module_file_def endsWith_def pick_export_def export_def to_lower_def
      ask_v1_def ask_v2_def command_name_def plog_def do_step_def)

theorem shutdown_runs_once_witness:
  "awaiting_signals (main sample_startup new_process)
   \<and> isShuttingDown (shutdown 0 (main sample_startup new_process))
   \<and> pending (shutdown 0 (main sample_startup new_process)) = AwaitStopWorker 0
   \<and> shutdown 0 (shutdown 0 (main sample_startup new_process))
       = shutdown 0 (main sample_startup new_process)
   \<and> steps (shutdown_resume (Some (Fault ''Error'' ''stop failed''))
               (shutdown 0 (main sample_startup new_process)))
       = steps (main sample_startup new_process) @ [StopWorker, DestroyClient]
   \<and> steps (run signals (main sample_startup new_process))
       = steps (main sample_startup new_process) @ [StopWorker, DestroyClient, Exit 0]
   \<and> exited (run signals (main sample_startup new_process)) = Some 0
   \<and> first_trigger_code signals = Some 0
   \<and> trigger_code UncaughtException = Some 1
   \<and> exited (run [UncaughtException, Settled None, Settled None]
               (main sample_startup new_process)) = Some 1
   \<and> killed_by (run (Signal SIGTERM # Signal SIGTERM # signals)
                  (main sample_startup new_process)) = Some SIGTERM"
proof -
  let ?p0 = "main sample_startup new_process"
  note i = started_process(1)
  have s: "isShuttingDown (shutdown 0 ?p0)"
      "pending (shutdown 0 ?p0) = AwaitStopWorker 0"
      "steps (shutdown 0 ?p0) = steps ?p0 @ [StopWorker]"
    using started_process(2,4) by (simp_all add: shutdown_def plog_def do_step_def)
  have r: "steps (run signals ?p0) = steps ?p0 @ [StopWorker, DestroyClient, Exit 0]"
      "exited (run signals ?p0) = Some 0"
    using started_process(2,4,5,6,7,8)
    by (simp_all add: run_def signals_def handle_def shutdown_def shutdown_resume_def
        plog_def do_step_def)
  show ?thesis
    using i s r
      shutdown_runs_once[OF i, where evs = signals and p = "shutdown 0 ?p0"
        and code = 0 and r = "Some (Fault ''Error'' ''stop failed'')"
        and ev = UncaughtException and ?r1.0 = None and ?r2.0 = None and sg = SIGTERM]
    by simp
qed

text \<open>
  The claim as stated fails: SIGINT is delivered twice. The first delivery starts the
  shutdown, which waits for \<^verbatim>\<open>stopWorker\<close>; the second finds no listener and
  terminates the process. \<^verbatim>\<open>client.destroy\<close> is never called and the process does
  not exit with code 0, whatever happens afterwards.
\<close>

theorem shutdown_runs_once_counterexample:
  "steps (run [Signal SIGINT, Signal SIGINT, Settled None, Settled None]
            (main sample_startup new_process))
     = [InitLogger, NewClient, NewQueueManager, StartWorker, ReadDir ''commands'',
        Import ''ask.ts'', Import ''ask2.ts'', ReadDir ''events'',
        RegisterProcessHandlers, Login, StopWorker]
   \<and> exited (run [Signal SIGINT, Signal SIGINT, Settled None, Settled None]
               (main sample_startup new_process)) = None
   \<and> killed_by (run [Signal SIGINT, Signal SIGINT, Settled None, Settled None]
                  (main sample_startup new_process)) = Some SIGINT"
  using started_process(2,3,4,5,6,7,8)
  by (simp add: run_def handle_def shutdown_def shutdown_resume_def plog_def do_step_def)

subsection \<open>Scenarios\<close>

text \<open>
  Three scenarios of the specification, run on the model. A short answer gives a single
  reply and no follow-ups. An answer of 5000 characters gives the reply with the first
  4096 and one follow-up with the other 904. After two modules have registered under
  "ask", the dispatch of "ask" runs the second one only (the first one would have timed
  out).
\<close>

lemma loaded_registry:
  "registry (loadCommands two_asks new_process) = Some [''ask'' \<mapsto> ask_v2]"
  by (simp add: loadCommands_def load_command_file_def two_asks_def new_process_def Let_def
      is_module_file_def endsWith_def pick_export_def export_def to_lower_def
      ask_v1_def ask_v2_def command_name_def plog_def do_step_def)

lemma scenario_short_answer:
  "askCommand_execute (resolving_env sample_job (JObj [(''answer'', JStr ''A validity rollup.'')]))
     sample_interaction fresh_world
   = (Inr (), fresh_world\<lparr>
        calls := [DeferReply,
          AddJob \<lparr>platform = DISCORD, userId = ''u1'', userName = ''alice'',
            message = ''What is Starknet?'', messageId = ''i1'', timestamp = 0\<rparr>,
          WaitForJobCompletion (JStr ''1'') 60000,
          EditReply (Embeds [\<lparr>title = ''Answer'', description = ''A validity rollup.'',
            footer = Latency 0\<rparr>])],
        deferred := True, replied := True\<rparr>)"
  by (simp add: askCommand_execute_def ask_try_def io_defs resolving_env_def resolving_def
      sample_job_def sample_interaction_def fresh_world_def now_def get_member_def
      as_string_def setDescription_def pickAnswer_def nullish_coalesce_def timeoutMs_def
      Let_def)

lemma scenario_long_answer:
  "calls (snd (askCommand_execute
                 (resolving_env sample_job (JObj [(''answer'', JStr long_answer)]))
                 sample_interaction fresh_world))
   = [DeferReply,
      AddJob \<lparr>platform = DISCORD, userId = ''u1'', userName = ''alice'',
        message = ''What is Starknet?'', messageId = ''i1'', timestamp = 0\<rparr>,
      WaitForJobCompletion (JStr ''1'') 60000,
      EditReply (Embeds [\<lparr>title = ''Answer'', description = replicate 4096 (CHR ''a''),
        footer = Latency 0\<rparr>]),
      FollowUp (Content (replicate 904 (CHR ''a''))) False]"
proof -
  have c: "toChunks (replicate 904 (CHR ''a'')) ask_chunk_size = Some [replicate 904 (CHR ''a'')]"
    by (rule toChunks_single) (simp_all add: ask_chunk_size_def)
  show ?thesis
    by (simp add: askCommand_execute_def ask_try_def io_defs followUp_def resolving_env_def
        resolving_def sample_job_def sample_interaction_def fresh_world_def now_def
        get_member_def as_string_def setDescription_def pickAnswer_def nullish_coalesce_def
        timeoutMs_def Let_def long_answer_def slice_def slice_from_def for_chunks_def c)
qed

lemma scenario_duplicate_dispatch:
  "invoked (snd (interactionCreate_execute (resolving_env JNull JNull)
       (registry (loadCommands two_asks new_process)) sample_interaction fresh_world)) = [''ask'']
   \<and> calls (snd (interactionCreate_execute (resolving_env JNull JNull)
       (registry (loadCommands two_asks new_process)) sample_interaction fresh_world))
     = [DeferReply,
          AddJob \<lparr>platform = DISCORD, userId = ''u1'', userName = ''alice'',
            message = ''What is Starknet?'', messageId = ''i1'', timestamp = 0\<rparr>,
          WaitForJobCompletion (JStr ''1'') 60000,
          EditReply (Embeds [\<lparr>title = ''Answer'', description = ''No answer received.'',
            footer = Latency 0\<rparr>])]"
  unfolding loaded_registry
  by (simp add: interactionCreate_execute_def call_execute_def ask_v2_def
      askCommand_execute_def ask_try_def io_defs resolving_env_def resolving_def
      sample_job_def sample_interaction_def fresh_world_def now_def get_member_def
      as_string_def setDescription_def pickAnswer_def nullish_coalesce_def timeoutMs_def
      Let_def)

end
